theory Spec2Isabelle
  imports Complex_Main "HOL-Library.Word"
begin

section \<open>Values of the Python program\<close>

text \<open>
  A Python float is an IEEE double. Every finite double is a rational number, and the
  program only ever compares floats, so a finite float is modelled by its exact value;
  the three special values that \<^verbatim>\<open>json.loads\<close> accepts (\<^verbatim>\<open>Infinity\<close>,
  \<^verbatim>\<open>-Infinity\<close>, \<^verbatim>\<open>NaN\<close>) are kept apart.
\<close>

datatype pyfloat = Fin rat | PosInf | NegInf | NaN

text \<open>A number of the program: a bool (a subclass of int in Python), an unbounded int or a float.\<close>

datatype pynum = PBool bool | PInt int | PFloat pyfloat

text \<open>
  What \<^verbatim>\<open>resp.json()\<close> returns: \<^verbatim>\<open>None\<close>, a number, a str, a list or a dict
  with str keys, given as the list of its items (\<open>map_of\<close> looks a key up).
  \<^verbatim>\<open>fetch_json\<close> returns \<^verbatim>\<open>None\<close> when the request failed, so \<open>JNull\<close> is also
  the absent payload.
\<close>

datatype json =
    JNull
  | JNum pynum
  | JStr string
  | JList "json list"
  | JDict "(string \<times> json) list"

text \<open>The exceptions the rating functions can meet; all are subclasses of \<^verbatim>\<open>Exception\<close>.\<close>

datatype py_error = KeyError | IndexError | TypeError | AttributeError

type_synonym bytes = "8 word list"

subsection \<open>Subscription, comparison, truth value\<close>

text \<open>\<^verbatim>\<open>obj[k]\<close> for a str key \<open>k\<close>: only a dict accepts it.\<close>

fun subscr_key :: "json \<Rightarrow> string \<Rightarrow> py_error + json" where
  "subscr_key (JDict kvs) k = (case map_of kvs k of None \<Rightarrow> Inl KeyError | Some v \<Rightarrow> Inr v)"
| "subscr_key _ k = Inl TypeError"

text \<open>
  \<^verbatim>\<open>obj[0]\<close>: the first element of a list, the first character of a str, a
  \<^verbatim>\<open>KeyError\<close> on a dict (its keys are strs), a \<^verbatim>\<open>TypeError\<close> on the rest.
\<close>

fun subscr_0 :: "json \<Rightarrow> py_error + json" where
  "subscr_0 (JList []) = Inl IndexError"
| "subscr_0 (JList (x # xs)) = Inr x"
| "subscr_0 (JStr []) = Inl IndexError"
| "subscr_0 (JStr (c # cs)) = Inr (JStr [c])"
| "subscr_0 (JDict kvs) = Inl KeyError"
| "subscr_0 _ = Inl TypeError"

text \<open>\<^verbatim>\<open>obj[k1][k2][0]\<close>, the shape of all three reads of the Open-Meteo payloads.\<close>

definition first_value :: "json \<Rightarrow> string \<Rightarrow> string \<Rightarrow> py_error + json" where
  "first_value obj k1 k2 =
     (case subscr_key obj k1 of
        Inl e \<Rightarrow> Inl e
      | Inr a \<Rightarrow> (case subscr_key a k2 of Inl e \<Rightarrow> Inl e | Inr b \<Rightarrow> subscr_0 b))"

text \<open>
  \<^verbatim>\<open>v > c\<close> for a number \<open>v\<close> and a numeric literal \<open>c\<close>, given by its exact
  value. Python compares an int with a float exactly; a bool is an int; \<^verbatim>\<open>nan > c\<close>
  is false. An operand that is not a number raises \<^verbatim>\<open>TypeError\<close>: each caller has
  that branch.
\<close>

fun num_gt :: "pynum \<Rightarrow> rat \<Rightarrow> bool" where
  "num_gt (PInt i) c = (of_int i > c)"
| "num_gt (PBool b) c = ((if b then 1 else 0) > c)"
| "num_gt (PFloat (Fin q)) c = (q > c)"
| "num_gt (PFloat PosInf) c = True"
| "num_gt (PFloat NegInf) c = False"
| "num_gt (PFloat NaN) c = False"

text \<open>The literal \<^verbatim>\<open>7.7\<close> is the double nearest to 7.7, which is this rational.\<close>

definition float_7_7 :: rat where
  "float_7_7 = 8669429282688205 / 1125899906842624"

text \<open>The truth value of an object, as \<^verbatim>\<open>not obj\<close> and \<^verbatim>\<open>if obj\<close> read it.\<close>

fun truthy :: "json \<Rightarrow> bool" where
  "truthy JNull = False"
| "truthy (JNum (PBool b)) = b"
| "truthy (JNum (PInt i)) = (i \<noteq> 0)"
| "truthy (JNum (PFloat (Fin q))) = (q \<noteq> 0)"
| "truthy (JNum (PFloat _)) = True"
| "truthy (JStr s) = (s \<noteq> [])"
| "truthy (JList xs) = (xs \<noteq> [])"
| "truthy (JDict kvs) = (kvs \<noteq> [])"

subsection \<open>Strings\<close>

text \<open>\<^verbatim>\<open>str(n)\<close> for an int: its decimal digits, with a minus sign when negative.\<close>

fun digits :: "nat \<Rightarrow> string" where
  "digits n = (if n < 10 then [''0123456789'' ! n] else digits (n div 10) @ [''0123456789'' ! (n mod 10)])"

declare digits.simps [simp del]

definition str_int :: "int \<Rightarrow> string" where
  "str_int i = (if i < 0 then CHR ''-'' # digits (nat (- i)) else digits (nat i))"

text \<open>
  \<^verbatim>\<open>str(v)\<close> for a number, as an f-string renders it. The shortest-round-trip text of
  a float is the interpreter's work and is taken as the parameter \<open>repr\<close>.
\<close>

fun num_str :: "(pyfloat \<Rightarrow> string) \<Rightarrow> pynum \<Rightarrow> string" where
  "num_str repr (PInt i) = str_int i"
| "num_str repr (PBool b) = (if b then ''True'' else ''False'')"
| "num_str repr (PFloat f) = repr f"

section \<open>compute_openmeteo_rating\<close>

text \<open>The two locals the function mutates: \<^verbatim>\<open>rating\<close> and \<^verbatim>\<open>reasons\<close>.\<close>

type_synonym st = "int \<times> string list"

text \<open>
  The three blocks of the \<^verbatim>\<open>try\<close> body. Each reads one field, compares it and, when
  the comparison holds, subtracts the penalty and appends the reason. A block that
  raises has changed nothing, since both updates come after the comparison.
\<close>

definition swell_block :: "(pyfloat \<Rightarrow> string) \<Rightarrow> json \<Rightarrow> st \<Rightarrow> py_error + st" where
  "swell_block repr marine s =
     (case first_value marine ''daily'' ''wave_height_max'' of
        Inl e \<Rightarrow> Inl e
      | Inr (JNum wave_height) \<Rightarrow>
          Inr (if num_gt wave_height 1
               then (fst s - 40, snd s @ [''Swell '' @ num_str repr wave_height @ '' m''])
               else s)
      | Inr _ \<Rightarrow> Inl TypeError)"

definition wind_block :: "(pyfloat \<Rightarrow> string) \<Rightarrow> json \<Rightarrow> st \<Rightarrow> py_error + st" where
  "wind_block repr weather s =
     (case first_value weather ''hourly'' ''wind_speed_10m'' of
        Inl e \<Rightarrow> Inl e
      | Inr (JNum wind_speed) \<Rightarrow>
          Inr (if num_gt wind_speed float_7_7
               then (fst s - 30, snd s @ [''Wind '' @ num_str repr wind_speed @ '' m/s''])
               else s)
      | Inr _ \<Rightarrow> Inl TypeError)"

definition rain_block :: "json \<Rightarrow> st \<Rightarrow> py_error + st" where
  "rain_block weather s =
     (case first_value weather ''hourly'' ''precipitation_probability'' of
        Inl e \<Rightarrow> Inl e
      | Inr (JNum precip) \<Rightarrow>
          Inr (if num_gt precip 50 then (fst s - 30, snd s @ [''Chance of rain'']) else s)
      | Inr _ \<Rightarrow> Inl TypeError)"

text \<open>
  The \<^verbatim>\<open>except Exception\<close> clause: the rating becomes 0 and one reason is appended to
  whatever \<^verbatim>\<open>reasons\<close> holds by then. The text of \<^verbatim>\<open>str(exc)\<close> is the
  interpreter's and is taken as the parameter \<open>exc_str\<close>.
\<close>

definition parse_failed :: "(py_error \<Rightarrow> string) \<Rightarrow> py_error \<Rightarrow> st \<Rightarrow> st" where
  "parse_failed exc_str exc s = (0, snd s @ [''Failed to parse data: '' @ exc_str exc])"

definition compute_openmeteo_rating ::
  "(pyfloat \<Rightarrow> string) \<Rightarrow> (py_error \<Rightarrow> string) \<Rightarrow> json \<Rightarrow> json \<Rightarrow> int \<times> string list" where
  "compute_openmeteo_rating repr exc_str marine weather =
     (let s0 = (100, []);
          s = (case swell_block repr marine s0 of
                 Inl exc \<Rightarrow> parse_failed exc_str exc s0
               | Inr s1 \<Rightarrow>
                   (case wind_block repr weather s1 of
                      Inl exc \<Rightarrow> parse_failed exc_str exc s1
                    | Inr s2 \<Rightarrow>
                        (case rain_block weather s2 of
                           Inl exc \<Rightarrow> parse_failed exc_str exc s2
                         | Inr s3 \<Rightarrow> s3)))
      in (max 0 (fst s), snd s))"

section \<open>compute_metservice_rating\<close>

text \<open>\<^verbatim>\<open>k in text\<close> for two strs: \<open>k\<close> occurs in \<open>text\<close> as a contiguous run.\<close>

fun str_in :: "string \<Rightarrow> string \<Rightarrow> bool" where
  "str_in k [] = (k = [])"
| "str_in k (c # cs) = (take (length k) (c # cs) = k \<or> str_in k cs)"

text \<open>
  \<^verbatim>\<open>k in obj\<close> for a str \<open>k\<close>: a key of a dict, an element of a list, a substring of a
  str; \<^verbatim>\<open>None\<close> and numbers are not iterable.
\<close>

fun py_in :: "string \<Rightarrow> json \<Rightarrow> py_error + bool" where
  "py_in k (JDict kvs) = Inr (map_of kvs k \<noteq> None)"
| "py_in k (JList xs) = Inr (JStr k \<in> set xs)"
| "py_in k (JStr s) = Inr (str_in k s)"
| "py_in k _ = Inl TypeError"

text \<open>\<^verbatim>\<open>obj.get(k, "")\<close>: only a dict has the method.\<close>

fun py_get :: "json \<Rightarrow> string \<Rightarrow> py_error + json" where
  "py_get (JDict kvs) k = Inr (case map_of kvs k of None \<Rightarrow> JStr [] | Some v \<Rightarrow> v)"
| "py_get _ k = Inl AttributeError"

text \<open>
  \<^verbatim>\<open>obj.lower()\<close>: only a str has the method. The keywords are ASCII, so only the
  lowering of ASCII capitals bears on the keyword tests.
\<close>

definition lower_char :: "char \<Rightarrow> char" where
  "lower_char c =
     (let n = (of_char c :: nat) in if 65 \<le> n \<and> n \<le> 90 then char_of (n + 32) else c)"

fun py_lower :: "json \<Rightarrow> py_error + string" where
  "py_lower (JStr s) = Inr (map lower_char s)"
| "py_lower _ = Inl AttributeError"

text \<open>Sequencing of steps that may raise: the first exception ends the evaluation.\<close>

definition and_then :: "'e + 'a \<Rightarrow> ('a \<Rightarrow> 'e + 'b) \<Rightarrow> 'e + 'b" where
  "and_then r f = (case r of Inl e \<Rightarrow> Inl e | Inr v \<Rightarrow> f v)"

text \<open>\<^verbatim>\<open>forecast["days"][0]\<close>, which the function evaluates twice.\<close>

definition first_day :: "json \<Rightarrow> py_error + json" where
  "first_day forecast = and_then (subscr_key forecast ''days'') subscr_0"

text \<open>The \<^verbatim>\<open>if\<close>/\<^verbatim>\<open>elif\<close> chain over the lowered forecast word.\<close>

definition keyword_rating :: "string \<Rightarrow> int" where
  "keyword_rating text =
     (if str_in ''rain'' text \<or> str_in ''shower'' text then 30
      else if str_in ''fine'' text \<or> str_in ''clear'' text \<or> str_in ''sunny'' text then 90
      else if str_in ''cloud'' text then 60
      else 60)"

text \<open>
  The function has no \<^verbatim>\<open>try\<close>: an exception of any step leaves it, which the result
  \<open>Inl\<close> records. The reason it returns is whatever the \<^verbatim>\<open>"forecast"\<close> field
  holds, not necessarily a str.
\<close>

definition compute_metservice_rating :: "json \<Rightarrow> py_error + int \<times> json list" where
  "compute_metservice_rating forecast =
     (if \<not> truthy forecast then Inr (0, [JStr ''No MetService data''])
      else
        and_then (py_in ''days'' forecast) (\<lambda>has_days.
          if \<not> has_days then Inr (0, [JStr ''No MetService data''])
          else
            and_then (first_day forecast) (\<lambda>day.
            and_then (py_get day ''forecastWord'') (\<lambda>word.
            and_then (py_lower word) (\<lambda>text.
              let rating = keyword_rating text in
              if text \<noteq> []
              then and_then (first_day forecast) (\<lambda>day'.
                   and_then (py_get day' ''forecast'') (\<lambda>note. Inr (rating, [note])))
              else Inr (rating, []))))))"

section \<open>compute_image_rating\<close>

text \<open>
  Decoding is the imaging library's work: \<open>decode\<close> gives the 8-bit grayscale pixels
  of the image, or \<open>None\<close> when opening or converting raises. The mean is the exact
  quotient; Python rounds it to a double, which changes neither comparison for an image
  of fewer than \<open>2 ^ 46\<close> pixels. An image of no pixels divides by zero, and the
  \<^verbatim>\<open>except\<close> clause returns 0.
\<close>

definition mean_intensity :: "8 word list \<Rightarrow> rat" where
  "mean_intensity pixels = of_nat (sum_list (map unat pixels)) / of_nat (length pixels)"

definition compute_image_rating :: "(bytes \<Rightarrow> 8 word list option) \<Rightarrow> bytes option \<Rightarrow> int" where
  "compute_image_rating decode data =
     (case data of
        None \<Rightarrow> 0
      | Some bs \<Rightarrow>
          if bs = [] then 0
          else
            (case decode bs of
               None \<Rightarrow> 0
             | Some pixels \<Rightarrow>
                 if length pixels = 0 then 0
                 else
                   let avg = mean_intensity pixels
                   in if avg > 150 then 90 else if avg > 80 then 70 else 40))"

section \<open>daily_task\<close>

text \<open>\<^verbatim>\<open>int(x)\<close> for a float: truncation toward zero.\<close>

definition py_int :: "rat \<Rightarrow> int" where
  "py_int q = (if q < 0 then - \<lfloor>- q\<rfloor> else \<lfloor>q\<rfloor>)"

text \<open>
  \<^verbatim>\<open>int(sum(all_ratings) / len(all_ratings))\<close>. The quotient is exact here; the double
  Python computes has the same integer part for ratings between 0 and 100.
\<close>

definition overall_rating :: "int list \<Rightarrow> int" where
  "overall_rating all_ratings =
     py_int (of_int (sum_list all_ratings) / of_nat (length all_ratings))"

text \<open>\<^verbatim>\<open>sep.join(xs)\<close> for strs.\<close>

fun join :: "string \<Rightarrow> string list \<Rightarrow> string" where
  "join sep [] = []"
| "join sep [x] = x"
| "join sep (x # y # ys) = x @ sep @ join sep (y # ys)"

text \<open>\<^verbatim>\<open>sep.join(xs)\<close> for a list of objects: an item that is not a str raises.\<close>

fun the_strs :: "json list \<Rightarrow> py_error + string list" where
  "the_strs [] = Inr []"
| "the_strs (JStr s # xs) = and_then (the_strs xs) (\<lambda>ss. Inr (s # ss))"
| "the_strs (_ # xs) = Inl TypeError"

definition py_join :: "string \<Rightarrow> json list \<Rightarrow> py_error + string" where
  "py_join sep xs = and_then (the_strs xs) (\<lambda>ss. Inr (join sep ss))"

definition newline :: string where
  "newline = [CHR 0x0A]"

text \<open>
  One run. The four payloads the run fetches are its inputs (\<open>JNull\<close> and \<open>None\<close> for
  a fetch that failed); its result is the subject and the body it hands to
  \<^verbatim>\<open>send_email\<close>, or the exception that leaves it.
\<close>

definition daily_task ::
  "(pyfloat \<Rightarrow> string) \<Rightarrow> (py_error \<Rightarrow> string) \<Rightarrow> (bytes \<Rightarrow> 8 word list option) \<Rightarrow>
   json \<Rightarrow> json \<Rightarrow> json \<Rightarrow> bytes option \<Rightarrow> py_error + string \<times> string" where
  "daily_task repr exc_str decode marine weather forecast image_data =
     (case compute_openmeteo_rating repr exc_str marine weather of
        (open_rating, open_reasons) \<Rightarrow>
     and_then (compute_metservice_rating forecast) (\<lambda>(met_rating, met_reasons).
       let message_lines =
             [''Open-Meteo rating: '' @ str_int open_rating,
              ''MetService rating: '' @ str_int met_rating];
           cam_rating = compute_image_rating decode image_data;
           message_lines = message_lines @ [''CawthronEye rating: '' @ str_int cam_rating];
           all_ratings = [open_rating, met_rating, cam_rating];
           message_lines =
             message_lines @ [''Overall rating: '' @ str_int (overall_rating all_ratings)];
           reasons = map JStr open_reasons @ met_reasons
       in
         if reasons \<noteq> []
         then and_then (py_join newline (JStr ''Reasons:'' # reasons)) (\<lambda>block.
                Inr (''Spearfishing update'', join newline (message_lines @ [block])))
         else Inr (''Spearfishing update'', join newline message_lines)))"

section \<open>Shapes of the payloads\<close>

text \<open>
  The shape the Open-Meteo reads expect, stated on the data alone: \<open>obj\<close> is a dict
  whose key \<open>k1\<close> holds a dict whose key \<open>k2\<close> holds a non-empty list whose first
  element is a number. \<open>first_number\<close> is that number, and \<open>None\<close> when a key is
  missing, a level has another type, the list is empty, or the element is not a number.
\<close>

definition first_number :: "json \<Rightarrow> string \<Rightarrow> string \<Rightarrow> pynum option" where
  "first_number obj k1 k2 =
     (case obj of
        JDict kvs \<Rightarrow>
          (case map_of kvs k1 of
             Some (JDict kvs') \<Rightarrow>
               (case map_of kvs' k2 of
                  Some (JList (JNum n # rest)) \<Rightarrow> Some n
                | _ \<Rightarrow> None)
           | _ \<Rightarrow> None)
      | _ \<Rightarrow> None)"

definition wave_height :: "json \<Rightarrow> pynum option" where
  "wave_height marine = first_number marine ''daily'' ''wave_height_max''"

definition wind_speed :: "json \<Rightarrow> pynum option" where
  "wind_speed weather = first_number weather ''hourly'' ''wind_speed_10m''"

definition precip :: "json \<Rightarrow> pynum option" where
  "precip weather = first_number weather ''hourly'' ''precipitation_probability''"

text \<open>
  The reasons of the penalties the \<^verbatim>\<open>try\<close> body has applied when a read fails: the
  swell reason when the wave height was read and is above its limit, then the wind
  reason when the wind speed was read as well and is above its limit.
\<close>

definition reasons_before_failure :: "(pyfloat \<Rightarrow> string) \<Rightarrow> json \<Rightarrow> json \<Rightarrow> string list" where
  "reasons_before_failure repr marine weather =
     (case wave_height marine of
        None \<Rightarrow> []
      | Some h \<Rightarrow>
          (if num_gt h 1 then [''Swell '' @ num_str repr h @ '' m''] else []) @
          (case wind_speed weather of
             None \<Rightarrow> []
           | Some w \<Rightarrow>
               if num_gt w float_7_7 then [''Wind '' @ num_str repr w @ '' m/s''] else []))"

text \<open>
  The shape the forecast reads expect: a dict whose key \<^verbatim>\<open>"days"\<close> holds a non-empty
  list whose first element is a dict. \<open>day_fields\<close> is that dict.
\<close>

definition day_fields :: "json \<Rightarrow> (string \<times> json) list option" where
  "day_fields forecast =
     (case forecast of
        JDict kvs \<Rightarrow>
          (case map_of kvs ''days'' of
             Some (JList (JDict day # rest)) \<Rightarrow> Some day
           | _ \<Rightarrow> None)
      | _ \<Rightarrow> None)"

text \<open>The payloads of the examples.\<close>

definition marine_of :: "pynum \<Rightarrow> json" where
  "marine_of h = JDict [(''daily'', JDict [(''wave_height_max'', JList [JNum h])])]"

definition weather_of :: "pynum \<Rightarrow> pynum \<Rightarrow> json" where
  "weather_of w p =
     JDict [(''hourly'', JDict [(''wind_speed_10m'', JList [JNum w]),
                                (''precipitation_probability'', JList [JNum p])])]"

definition forecast_of :: "(string \<times> json) list \<Rightarrow> json" where
  "forecast_of day = JDict [(''days'', JList [JDict day])]"

section \<open>Properties of compute_openmeteo_rating\<close>

lemma first_value_number:
  "first_number obj k1 k2 = Some n \<Longrightarrow> first_value obj k1 k2 = Inr (JNum n)"
  by (auto simp: first_number_def first_value_def
      split: json.splits option.splits list.splits)

lemma first_value_no_number:
  "first_number obj k1 k2 = None \<Longrightarrow> first_value obj k1 k2 \<noteq> Inr (JNum n)"
  by (cases obj)
     (auto simp: first_number_def first_value_def elim!: subscr_0.elims
      split: json.splits option.splits list.splits sum.splits)

lemma swell_block_number:
  "wave_height marine = Some h \<Longrightarrow>
   swell_block repr marine s =
     Inr (if num_gt h 1 then (fst s - 40, snd s @ [''Swell '' @ num_str repr h @ '' m'']) else s)"
  by (simp add: swell_block_def wave_height_def first_value_number)

lemma swell_block_raises:
  "wave_height marine = None \<Longrightarrow> \<exists>e. swell_block repr marine s = Inl e"
  using first_value_no_number [of marine "''daily''" "''wave_height_max''"]
  by (auto simp: swell_block_def wave_height_def split: sum.splits json.splits)

lemma wind_block_number:
  "wind_speed weather = Some w \<Longrightarrow>
   wind_block repr weather s =
     Inr (if num_gt w float_7_7
          then (fst s - 30, snd s @ [''Wind '' @ num_str repr w @ '' m/s'']) else s)"
  by (simp add: wind_block_def wind_speed_def first_value_number)

lemma wind_block_raises:
  "wind_speed weather = None \<Longrightarrow> \<exists>e. wind_block repr weather s = Inl e"
  using first_value_no_number [of weather "''hourly''" "''wind_speed_10m''"]
  by (auto simp: wind_block_def wind_speed_def split: sum.splits json.splits)

lemma rain_block_number:
  "precip weather = Some p \<Longrightarrow>
   rain_block weather s =
     Inr (if num_gt p 50 then (fst s - 30, snd s @ [''Chance of rain'']) else s)"
  by (simp add: rain_block_def precip_def first_value_number)

lemma rain_block_raises:
  "precip weather = None \<Longrightarrow> \<exists>e. rain_block weather s = Inl e"
  using first_value_no_number [of weather "''hourly''" "''precipitation_probability''"]
  by (auto simp: rain_block_def precip_def split: sum.splits json.splits)

lemma openmeteo_well_formed:
  assumes "wave_height marine = Some h" and "wind_speed weather = Some w"
    and "precip weather = Some p"
  shows "compute_openmeteo_rating repr exc_str marine weather =
    (100 - (if num_gt h 1 then 40 else 0) - (if num_gt w float_7_7 then 30 else 0)
         - (if num_gt p 50 then 30 else 0),
     (if num_gt h 1 then [''Swell '' @ num_str repr h @ '' m''] else []) @
     (if num_gt w float_7_7 then [''Wind '' @ num_str repr w @ '' m/s''] else []) @
     (if num_gt p 50 then [''Chance of rain''] else []))"
  using assms
  by (simp add: compute_openmeteo_rating_def swell_block_number wind_block_number
      rain_block_number)

text \<open>
  Claim C5. When both payloads are well formed and the first daily wave height is above
  1.0, the first hourly wind speed above 7.7 and the first hourly precipitation
  probability above 50, the rating is \<open>max 0 (100 - 40 - 30 - 30) = 0\<close> and the reasons
  are exactly three, in the order swell, wind, chance of rain.
\<close>

theorem all_penalties_triggered:
  assumes "wave_height marine = Some h" and "num_gt h 1"
    and "wind_speed weather = Some w" and "num_gt w float_7_7"
    and "precip weather = Some p" and "num_gt p 50"
  shows "compute_openmeteo_rating repr exc_str marine weather =
    (max 0 (100 - 40 - 30 - 30),
     [''Swell '' @ num_str repr h @ '' m'', ''Wind '' @ num_str repr w @ '' m/s'',
      ''Chance of rain''])
    \<and> fst (compute_openmeteo_rating repr exc_str marine weather) = 0
    \<and> length (snd (compute_openmeteo_rating repr exc_str marine weather)) = 3"
  using assms by (simp add: openmeteo_well_formed)

text \<open>The theorem at wave height 2, wind speed 8 and precipitation probability 60.\<close>

theorem all_penalties_triggered_witness:
  "wave_height (marine_of (PInt 2)) = Some (PInt 2) \<and> num_gt (PInt 2) 1 \<and>
   wind_speed (weather_of (PInt 8) (PInt 60)) = Some (PInt 8) \<and> num_gt (PInt 8) float_7_7 \<and>
   precip (weather_of (PInt 8) (PInt 60)) = Some (PInt 60) \<and> num_gt (PInt 60) 50 \<and>
   compute_openmeteo_rating (\<lambda>f. []) (\<lambda>e. []) (marine_of (PInt 2)) (weather_of (PInt 8) (PInt 60))
     = (0, [''Swell 2 m'', ''Wind 8 m/s'', ''Chance of rain''])"
proof -
  have a: "wave_height (marine_of (PInt 2)) = Some (PInt 2)"
    by (simp add: wave_height_def first_number_def marine_of_def)
  have b: "wind_speed (weather_of (PInt 8) (PInt 60)) = Some (PInt 8)"
    by (simp add: wind_speed_def first_number_def weather_of_def)
  have c: "precip (weather_of (PInt 8) (PInt 60)) = Some (PInt 60)"
    by (simp add: precip_def first_number_def weather_of_def)
  have d: "num_gt (PInt 2) 1" "num_gt (PInt 8) float_7_7" "num_gt (PInt 60) 50"
    by (simp_all add: float_7_7_def)
  have e: "str_int 2 = ''2''" "str_int 8 = ''8''"
    by (simp_all add: str_int_def digits.simps)
  from all_penalties_triggered [OF a d(1) b d(2) c d(3), of "\<lambda>f. []" "\<lambda>e. []"] a b c d e
  show ?thesis by simp
qed

text \<open>
  Claim C6. For well-formed payloads, the rating is 40 below the rating that a wave
  height not above 1.0 gives with the same weather payload if and only if the wave
  height is above 1.0, and equal to it otherwise, whatever the wind speed and the
  precipitation probability are.
\<close>

theorem swell_penalty_exactly_40:
  assumes "wave_height calm = Some h0" and "\<not> num_gt h0 1"
    and "wave_height marine = Some h"
    and "wind_speed weather = Some w" and "precip weather = Some p"
  shows "(fst (compute_openmeteo_rating repr exc_str marine weather) =
          fst (compute_openmeteo_rating repr exc_str calm weather) - 40) = num_gt h 1
       \<and> (fst (compute_openmeteo_rating repr exc_str marine weather) =
          fst (compute_openmeteo_rating repr exc_str calm weather)) = (\<not> num_gt h 1)"
  using assms by (simp add: openmeteo_well_formed)

text \<open>The theorem at wave heights 1 and 2, with wind speed 5 and precipitation probability 20.\<close>

theorem swell_penalty_exactly_40_witness:
  "wave_height (marine_of (PInt 1)) = Some (PInt 1) \<and> \<not> num_gt (PInt 1) 1 \<and>
   wave_height (marine_of (PInt 2)) = Some (PInt 2) \<and> num_gt (PInt 2) 1 \<and>
   wind_speed (weather_of (PInt 5) (PInt 20)) = Some (PInt 5) \<and>
   precip (weather_of (PInt 5) (PInt 20)) = Some (PInt 20) \<and>
   fst (compute_openmeteo_rating (\<lambda>f. []) (\<lambda>e. []) (marine_of (PInt 2)) (weather_of (PInt 5) (PInt 20))) =
   fst (compute_openmeteo_rating (\<lambda>f. []) (\<lambda>e. []) (marine_of (PInt 1)) (weather_of (PInt 5) (PInt 20))) - 40"
proof -
  have a: "wave_height (marine_of (PInt 1)) = Some (PInt 1)"
    "wave_height (marine_of (PInt 2)) = Some (PInt 2)"
    by (simp_all add: wave_height_def first_number_def marine_of_def)
  have b: "wind_speed (weather_of (PInt 5) (PInt 20)) = Some (PInt 5)"
    by (simp add: wind_speed_def first_number_def weather_of_def)
  have c: "precip (weather_of (PInt 5) (PInt 20)) = Some (PInt 20)"
    by (simp add: precip_def first_number_def weather_of_def)
  have d: "\<not> num_gt (PInt 1) 1" "num_gt (PInt 2) 1"
    by simp_all
  from swell_penalty_exactly_40 [OF a(1) d(1) a(2) b c, of "\<lambda>f. []" "\<lambda>e. []"] a b c d
  show ?thesis by simp
qed

lemma openmeteo_parse_failure:
  assumes "wave_height marine = None \<or> wind_speed weather = None \<or> precip weather = None"
  shows "\<exists>exc. compute_openmeteo_rating repr exc_str marine weather =
    (0, reasons_before_failure repr marine weather @ [''Failed to parse data: '' @ exc_str exc])"
proof (cases "wave_height marine")
  case None
  from swell_block_raises [OF None] obtain e
    where "swell_block repr marine (100, []) = Inl e" by blast
  with None show ?thesis
    by (auto simp: compute_openmeteo_rating_def parse_failed_def reasons_before_failure_def)
next
  case h: (Some h)
  show ?thesis
  proof (cases "wind_speed weather")
    case None
    from wind_block_raises [OF None] have "\<And>s. \<exists>e. wind_block repr weather s = Inl e" by blast
    then obtain e where "wind_block repr weather
      (if num_gt h 1 then (100 - 40, [] @ [''Swell '' @ num_str repr h @ '' m'']) else (100, [])) = Inl e"
      by blast
    with h None show ?thesis
      by (auto simp: compute_openmeteo_rating_def parse_failed_def reasons_before_failure_def
          swell_block_number)
  next
    case w: (Some w)
    with h assms have p: "precip weather = None" by simp
    from rain_block_raises [OF p] have "\<And>s. \<exists>e. rain_block weather s = Inl e" by blast
    then obtain e where "rain_block weather
      (if num_gt w float_7_7
       then (fst (if num_gt h 1 then (60, [''Swell '' @ num_str repr h @ '' m'']) else (100, [])) - 30,
             snd (if num_gt h 1 then (60, [''Swell '' @ num_str repr h @ '' m'']) else (100, [])) @
             [''Wind '' @ num_str repr w @ '' m/s''])
       else (if num_gt h 1 then (60, [''Swell '' @ num_str repr h @ '' m'']) else (100, []))) = Inl e"
      by blast
    with h w show ?thesis
      by (auto simp: compute_openmeteo_rating_def parse_failed_def reasons_before_failure_def
          swell_block_number wind_block_number)
  qed
qed

lemma reasons_before_failure_length: "length (reasons_before_failure repr marine weather) \<le> 2"
  by (simp add: reasons_before_failure_def split: option.splits)

text \<open>
  Claim C1, as the code has it. When a required field is missing or of the wrong shape
  the rating is 0 and exactly one parse-failure reason is appended, after the reasons of
  the penalties applied before the failing read (at most two: swell, wind). The list
  has exactly one element when the marine read is the one that fails.
\<close>

theorem parse_failure_keeps_reasons:
  assumes "wave_height marine = None \<or> wind_speed weather = None \<or> precip weather = None"
  shows "(\<exists>exc. compute_openmeteo_rating repr exc_str marine weather =
            (0, reasons_before_failure repr marine weather @
                [''Failed to parse data: '' @ exc_str exc]))
       \<and> length (reasons_before_failure repr marine weather) \<le> 2
       \<and> (wave_height marine = None \<longrightarrow>
            length (snd (compute_openmeteo_rating repr exc_str marine weather)) = 1)"
proof -
  from openmeteo_parse_failure [OF assms] obtain exc where
    r: "compute_openmeteo_rating repr exc_str marine weather =
          (0, reasons_before_failure repr marine weather @ [''Failed to parse data: '' @ exc_str exc])"
    by blast
  have "wave_height marine = None \<longrightarrow> reasons_before_failure repr marine weather = []"
    by (simp add: reasons_before_failure_def)
  with r reasons_before_failure_length show ?thesis by auto
qed

text \<open>The theorem at a wave height of 2 with the weather payload absent.\<close>

theorem parse_failure_keeps_reasons_witness:
  "wind_speed JNull = None \<and>
   compute_openmeteo_rating (\<lambda>f. []) (\<lambda>e. ''error'') (marine_of (PInt 2)) JNull =
     (0, [''Swell 2 m'', ''Failed to parse data: error''])"
proof -
  have a: "wind_speed JNull = None"
    by (simp add: wind_speed_def first_number_def)
  have b: "reasons_before_failure (\<lambda>f. []) (marine_of (PInt 2)) JNull = [''Swell 2 m'']"
    by (simp add: reasons_before_failure_def wave_height_def first_number_def marine_of_def a
        str_int_def digits.simps)
  from parse_failure_keeps_reasons [of "marine_of (PInt 2)" JNull "\<lambda>f. []" "\<lambda>e. ''error''"] a b
  show ?thesis by auto
qed

text \<open>
  Claim C1 as stated fails: with a wave height of 1.5 and the weather payload absent the
  reasons are two, the swell reason and the parse failure.
\<close>

theorem parse_failure_two_reasons:
  "snd (compute_openmeteo_rating (\<lambda>f. ''1.5'') (\<lambda>e. ''error'')
         (marine_of (PFloat (Fin (3 / 2)))) JNull) =
     [''Swell 1.5 m'', ''Failed to parse data: error'']
   \<and> length (snd (compute_openmeteo_rating (\<lambda>f. ''1.5'') (\<lambda>e. ''error'')
         (marine_of (PFloat (Fin (3 / 2)))) JNull)) \<noteq> 1"
  by (simp add: compute_openmeteo_rating_def swell_block_def wind_block_def first_value_def
      marine_of_def parse_failed_def)

lemma openmeteo_rating_range:
  "0 \<le> fst (compute_openmeteo_rating repr exc_str marine weather) \<and>
   fst (compute_openmeteo_rating repr exc_str marine weather) \<le> 100"
proof (cases "wave_height marine = None \<or> wind_speed weather = None \<or> precip weather = None")
  case True
  from openmeteo_parse_failure [OF True] show ?thesis by (metis fst_conv order_refl zero_le_numeral)
next
  case False
  then obtain h w p where "wave_height marine = Some h" "wind_speed weather = Some w"
    "precip weather = Some p" by auto
  then show ?thesis by (simp add: openmeteo_well_formed)
qed

section \<open>Properties of compute_metservice_rating\<close>

lemma first_day_fields:
  "day_fields forecast = Some day \<Longrightarrow>
   first_day forecast = Inr (JDict day) \<and> truthy forecast \<and> py_in ''days'' forecast = Inr True"
  by (auto simp: day_fields_def first_day_def and_then_def
      split: json.splits option.splits list.splits)

lemma metservice_well_formed:
  assumes "day_fields forecast = Some day"
    and "map_of day ''forecastWord'' = Some (JStr word)"
  shows "compute_metservice_rating forecast =
    Inr (keyword_rating (map lower_char word),
         if word = [] then []
         else [case map_of day ''forecast'' of None \<Rightarrow> JStr [] | Some v \<Rightarrow> v])"
  using first_day_fields [OF assms(1)] assms(2)
  by (simp add: compute_metservice_rating_def and_then_def)

lemma keyword_rating_values: "keyword_rating text \<in> {30, 60, 90}"
  by (simp add: keyword_rating_def)

lemma metservice_rating_range:
  "compute_metservice_rating forecast = Inr (rating, reasons) \<Longrightarrow> rating \<in> {0, 30, 60, 90}"
  using keyword_rating_values
  by (auto simp: compute_metservice_rating_def and_then_def Let_def
      split: if_splits sum.splits)

text \<open>
  What the guard covers: an absent or empty payload, and a dict without the key
  \<^verbatim>\<open>"days"\<close>, are rated 0 with the no-data reason.
\<close>

lemma metservice_no_data:
  "compute_metservice_rating JNull = Inr (0, [JStr ''No MetService data''])"
  "compute_metservice_rating (JDict []) = Inr (0, [JStr ''No MetService data''])"
  "map_of kvs ''days'' = None \<Longrightarrow>
   compute_metservice_rating (JDict kvs) = Inr (0, [JStr ''No MetService data''])"
  by (simp_all add: compute_metservice_rating_def and_then_def)

text \<open>
  Claim C9. When the first day of the forecast payload has a forecast word, the rating
  follows the first matching branch in the fixed order: 30 when the lowered word holds
  "rain" or "shower", whatever else it holds; otherwise 90 when it holds "fine",
  "clear" or "sunny", also when it holds "cloud"; otherwise 60. In particular a word
  that holds both "rain" and "sunny" is rated 30.
\<close>

theorem keyword_precedence:
  assumes "day_fields forecast = Some day"
    and "map_of day ''forecastWord'' = Some (JStr word)"
    and "text = map lower_char word"
  shows "\<exists>rating reasons.
      compute_metservice_rating forecast = Inr (rating, reasons) \<and>
      rating =
        (if str_in ''rain'' text \<or> str_in ''shower'' text then 30
         else if str_in ''fine'' text \<or> str_in ''clear'' text \<or> str_in ''sunny'' text then 90
         else 60) \<and>
      (str_in ''rain'' text \<and> str_in ''sunny'' text \<longrightarrow> rating = 30)"
  using metservice_well_formed [OF assms(1,2)] assms(3)
  by (simp add: keyword_rating_def)

text \<open>The theorem at the forecast word "Sunny, then rain".\<close>

theorem keyword_precedence_witness:
  "day_fields (forecast_of [(''forecastWord'', JStr ''Sunny, then rain'')]) =
     Some [(''forecastWord'', JStr ''Sunny, then rain'')] \<and>
   map_of [(''forecastWord'', JStr ''Sunny, then rain'')] ''forecastWord'' =
     Some (JStr ''Sunny, then rain'') \<and>
   ''sunny, then rain'' = map lower_char ''Sunny, then rain'' \<and>
   str_in ''rain'' ''sunny, then rain'' \<and> str_in ''sunny'' ''sunny, then rain'' \<and>
   (\<exists>reasons. compute_metservice_rating (forecast_of [(''forecastWord'', JStr ''Sunny, then rain'')]) =
      Inr (30, reasons))"
proof -
  have a: "day_fields (forecast_of [(''forecastWord'', JStr ''Sunny, then rain'')]) =
     Some [(''forecastWord'', JStr ''Sunny, then rain'')]"
    by (simp add: day_fields_def forecast_of_def)
  have b: "map_of [(''forecastWord'', JStr ''Sunny, then rain'')] ''forecastWord'' =
     Some (JStr ''Sunny, then rain'')"
    by simp
  have c: "''sunny, then rain'' = map lower_char ''Sunny, then rain''"
    by code_simp
  have d: "str_in ''rain'' ''sunny, then rain''" "str_in ''sunny'' ''sunny, then rain''"
    by simp_all
  from keyword_precedence [OF a b c] a b c d show ?thesis by simp
qed

text \<open>
  Claim C2 asks that the function never raises and rates an empty \<^verbatim>\<open>"days"\<close>
  sequence 0 with the no-data reason. On the payload \<^verbatim>\<open>{"days": []}\<close> the guard
  passes and \<^verbatim>\<open>forecast["days"][0]\<close> raises \<^verbatim>\<open>IndexError\<close>, which nothing
  catches.
\<close>

theorem metservice_raises_on_empty_days:
  "compute_metservice_rating (JDict [(''days'', JList [])]) = Inl IndexError"
  by (simp add: compute_metservice_rating_def and_then_def first_day_def)

section \<open>Properties of compute_image_rating\<close>

lemma image_rating_decoded:
  assumes "bs \<noteq> []" and "decode bs = Some pixels" and "pixels \<noteq> []"
  shows "compute_image_rating decode (Some bs) =
    (if mean_intensity pixels > 150 then 90 else if mean_intensity pixels > 80 then 70 else 40)"
  using assms by (simp add: compute_image_rating_def)

lemma mean_intensity_above:
  assumes "pixels \<noteq> []"
  shows "(mean_intensity pixels > of_nat c) = (c * length pixels < sum_list (map unat pixels))"
proof -
  have "0 < (of_nat (length pixels) :: rat)" using assms by simp
  then have "(of_nat c < of_nat (sum_list (map unat pixels)) / (of_nat (length pixels) :: rat)) =
    (of_nat c * of_nat (length pixels) < (of_nat (sum_list (map unat pixels)) :: rat))"
    by (simp add: pos_less_divide_eq)
  also have "\<dots> = (c * length pixels < sum_list (map unat pixels))"
    by (metis of_nat_less_iff of_nat_mult)
  finally show ?thesis by (simp add: mean_intensity_def)
qed

lemma image_rating_values: "compute_image_rating decode data \<in> {0, 40, 70, 90}"
  by (simp add: compute_image_rating_def Let_def split: option.splits)

text \<open>
  Claim C8. For an image that decodes to at least one pixel the rating is a step
  function of the mean intensity with strict comparisons: 90 when the mean is above
  150, 70 when it is above 80 and at most 150, 40 when it is at most 80. A mean of
  exactly 150 is rated 70 and a mean of exactly 80 is rated 40. In whole numbers, the
  rating is 90 exactly when the sum of the pixels is above 150 times their number, and
  40 exactly when it is at most 80 times their number.
\<close>

theorem image_rating_step_function:
  assumes "bs \<noteq> []" and "decode bs = Some pixels" and "pixels \<noteq> []"
  shows "compute_image_rating decode (Some bs) =
      (if mean_intensity pixels > 150 then 90 else if mean_intensity pixels > 80 then 70 else 40)
    \<and> (mean_intensity pixels = 150 \<longrightarrow> compute_image_rating decode (Some bs) = 70)
    \<and> (mean_intensity pixels = 80 \<longrightarrow> compute_image_rating decode (Some bs) = 40)
    \<and> (compute_image_rating decode (Some bs) = 90) =
        (150 * length pixels < sum_list (map unat pixels))
    \<and> (compute_image_rating decode (Some bs) = 40) =
        (sum_list (map unat pixels) \<le> 80 * length pixels)"
proof -
  note r = image_rating_decoded [of bs decode pixels, OF assms]
  have a: "(mean_intensity pixels > 150) = (150 * length pixels < sum_list (map unat pixels))"
    using mean_intensity_above [OF assms(3), of 150] by simp
  have b: "(mean_intensity pixels > 80) = (80 * length pixels < sum_list (map unat pixels))"
    using mean_intensity_above [OF assms(3), of 80] by simp
  have c: "mean_intensity pixels = 150 \<longrightarrow> compute_image_rating decode (Some bs) = 70"
    and d: "mean_intensity pixels = 80 \<longrightarrow> compute_image_rating decode (Some bs) = 40"
    by (simp_all add: r)
  have e: "(compute_image_rating decode (Some bs) = 90) =
      (150 * length pixels < sum_list (map unat pixels))"
    using a by (simp add: r)
  have f: "(compute_image_rating decode (Some bs) = 40) =
      (sum_list (map unat pixels) \<le> 80 * length pixels)"
    using a b by (auto simp: r)
  from r c d e f show ?thesis by blast
qed

text \<open>The theorem at an image of two pixels of intensity 150 and at one of intensity 80.\<close>

theorem image_rating_step_function_witness:
  "[1 :: 8 word] \<noteq> [] \<and> [150, 150 :: 8 word] \<noteq> [] \<and> [80 :: 8 word] \<noteq> [] \<and>
   mean_intensity [150, 150] = 150 \<and>
   compute_image_rating (\<lambda>bs. Some [150, 150]) (Some [1]) = 70 \<and>
   mean_intensity [80] = 80 \<and>
   compute_image_rating (\<lambda>bs. Some [80]) (Some [1]) = 40"
proof -
  have m: "mean_intensity [150, 150] = 150" "mean_intensity [80] = 80"
    by (simp_all add: mean_intensity_def)
  from image_rating_step_function [of "[1]" "\<lambda>bs. Some [150, 150]" "[150, 150]"]
    image_rating_step_function [of "[1]" "\<lambda>bs. Some [80]" "[80]"] m
  show ?thesis by simp
qed

section \<open>Properties of daily_task\<close>

lemma py_int_of_int_div:
  "py_int (of_int s / of_nat 3) = sgn s * (\<bar>s\<bar> div 3)"
proof (cases "s < 0")
  case True
  have "\<lfloor>- (of_int s / (3 :: rat))\<rfloor> = (- s) div 3"
    by (metis floor_divide_of_int_eq minus_divide_left of_int_minus of_int_numeral)
  with True show ?thesis
    by (simp add: py_int_def divide_neg_pos sgn_if)
next
  case False
  have "\<lfloor>of_int s / (3 :: rat)\<rfloor> = s div 3"
    by (metis floor_divide_of_int_eq of_int_numeral)
  with False show ?thesis
    by (simp add: py_int_def sgn_if not_less divide_less_0_iff)
qed

text \<open>
  Claim C3. The overall rating of three source ratings is their mean truncated toward
  zero: the sign of the sum times the integer quotient of its absolute value by 3. For
  (90, 60, 40) it is 63, and for (90, 60, 41), whose mean is 63.67, it is 63 as well.
\<close>

theorem overall_rating_truncates:
  "overall_rating [a, b, c] = sgn (a + b + c) * (\<bar>a + b + c\<bar> div 3)
   \<and> overall_rating [90, 60, 40] = 63
   \<and> overall_rating [90, 60, 41] = 63"
proof -
  have "overall_rating [x, y, z] = sgn (x + y + z) * (\<bar>x + y + z\<bar> div 3)" for x y z
    using py_int_of_int_div [of "x + y + z"] by (simp add: overall_rating_def add.assoc)
  then show ?thesis by simp
qed

lemma join_block:
  "ys \<noteq> [] \<Longrightarrow> join sep (xs @ [join sep ys]) = join sep (xs @ ys)"
proof (induction sep xs rule: join.induct)
  case (1 sep)
  then show ?case by simp
next
  case (2 sep x)
  then show ?case by (cases ys) simp_all
next
  case (3 sep x y ys)
  then show ?case by simp
qed

lemma the_strs_map: "the_strs (map JStr ss) = Inr ss"
  by (induction ss) (simp_all add: and_then_def)

lemma daily_task_message:
  assumes "compute_openmeteo_rating repr exc_str marine weather = (open_rating, open_reasons)"
    and "compute_metservice_rating forecast = Inr (met_rating, map JStr met_reasons)"
    and "compute_image_rating decode image_data = cam_rating"
  shows "daily_task repr exc_str decode marine weather forecast image_data =
    Inr (''Spearfishing update'',
         join newline
           ([''Open-Meteo rating: '' @ str_int open_rating,
             ''MetService rating: '' @ str_int met_rating,
             ''CawthronEye rating: '' @ str_int cam_rating,
             ''Overall rating: '' @ str_int (overall_rating [open_rating, met_rating, cam_rating])] @
            (if open_reasons @ met_reasons = [] then []
             else ''Reasons:'' # open_reasons @ met_reasons)))"
proof (cases "open_reasons @ met_reasons = []")
  case True
  with assms show ?thesis
    by (simp add: daily_task_def and_then_def)
next
  case False
  have s: "the_strs (map JStr open_reasons @ map JStr met_reasons) = Inr (open_reasons @ met_reasons)"
    using the_strs_map [of "open_reasons @ met_reasons"] by simp
  have j: "join newline (xs @ [join newline (''Reasons:'' # open_reasons @ met_reasons)]) =
           join newline (xs @ ''Reasons:'' # open_reasons @ met_reasons)" for xs
    by (rule join_block) simp
  have "daily_task repr exc_str decode marine weather forecast image_data =
    Inr (''Spearfishing update'',
         join newline
           ([''Open-Meteo rating: '' @ str_int open_rating,
             ''MetService rating: '' @ str_int met_rating,
             ''CawthronEye rating: '' @ str_int cam_rating,
             ''Overall rating: '' @ str_int (overall_rating [open_rating, met_rating, cam_rating])] @
            [join newline (''Reasons:'' # open_reasons @ met_reasons)]))"
    using assms False s
    by (simp add: daily_task_def and_then_def py_join_def del: join.simps)
  with False show ?thesis
    unfolding j by simp
qed

text \<open>
  The same body as the text it is: \<^verbatim>\<open>join\<close> puts the separator between consecutive
  items and nowhere else, and the separator is the one character of code 10.
\<close>

lemma join_text: "join sep (x # xs) = x @ concat (map (\<lambda>r. sep @ r) xs)"
  by (induction sep "x # xs" arbitrary: x xs rule: join.induct) simp_all

lemma daily_task_text:
  assumes "compute_openmeteo_rating repr exc_str marine weather = (open_rating, open_reasons)"
    and "compute_metservice_rating forecast = Inr (met_rating, map JStr met_reasons)"
    and "compute_image_rating decode image_data = cam_rating"
  shows "daily_task repr exc_str decode marine weather forecast image_data =
    Inr (''Spearfishing update'',
         ''Open-Meteo rating: '' @ str_int open_rating @ [CHR 0x0A] @
         ''MetService rating: '' @ str_int met_rating @ [CHR 0x0A] @
         ''CawthronEye rating: '' @ str_int cam_rating @ [CHR 0x0A] @
         ''Overall rating: '' @ str_int (overall_rating [open_rating, met_rating, cam_rating]) @
         (if open_reasons @ met_reasons = [] then []
          else [CHR 0x0A] @ ''Reasons:'' @
               concat (map (\<lambda>reason. CHR 0x0A # reason) (open_reasons @ met_reasons))))"
  unfolding daily_task_message [OF assms]
  by (simp add: join_text newline_def del: join.simps)

lemma the_strs_Inr: "the_strs xs = Inr ss \<Longrightarrow> xs = map JStr ss"
proof (induction xs arbitrary: ss rule: the_strs.induct)
  case 1
  then show ?case by simp
next
  case (2 s xs)
  then show ?case by (auto simp: and_then_def split: sum.splits)
qed simp_all

lemma map_JStr_suffix:
  assumes "map JStr xs @ ys = map JStr zs"
  shows "\<exists>ws. ys = map JStr ws"
proof -
  from assms have "ys = drop (length xs) (map JStr zs)"
    by (metis append_eq_conv_conj length_map)
  then have "ys = map JStr (drop (length xs) zs)" by (simp add: drop_map)
  then show ?thesis ..
qed

text \<open>
  A run composes a message only when the forecast rating returned and its reasons are
  strs, so the lemma above covers every message a run composes.
\<close>

lemma daily_task_returns:
  assumes "daily_task repr exc_str decode marine weather forecast image_data = Inr res"
  shows "\<exists>met_rating met_reasons.
    compute_metservice_rating forecast = Inr (met_rating, map JStr met_reasons)"
proof (cases "compute_metservice_rating forecast")
  case (Inl e)
  with assms show ?thesis
    by (simp add: daily_task_def and_then_def split: prod.splits)
next
  case (Inr r)
  obtain met_rating rs where r: "r = (met_rating, rs)" by (cases r)
  obtain open_rating open_reasons where
    o: "compute_openmeteo_rating repr exc_str marine weather = (open_rating, open_reasons)"
    by (cases "compute_openmeteo_rating repr exc_str marine weather")
  show ?thesis
  proof (cases "rs = []")
    case True
    with Inr r have "compute_metservice_rating forecast = Inr (met_rating, map JStr [])" by simp
    then show ?thesis by blast
  next
    case False
    with assms Inr r o obtain ss where
      "the_strs (JStr ''Reasons:'' # map JStr open_reasons @ rs) = Inr ss"
      by (auto simp: daily_task_def and_then_def py_join_def split: sum.splits)
    from the_strs_Inr [OF this] have "map JStr (''Reasons:'' # open_reasons) @ rs = map JStr ss"
      by simp
    from map_JStr_suffix [OF this] obtain ws where "rs = map JStr ws" ..
    with Inr r show ?thesis by blast
  qed
qed

text \<open>
  Claim C4. When the forecast rating returns and its reasons are strs, the body is this
  text: the Open-Meteo, MetService and webcam (CawthronEye) rating lines in that order
  and the overall rating line, each two consecutive lines separated by one newline
  character; then, only when the reasons of the two textual sources together are not
  empty, a newline, the line "Reasons:" and each reason after a newline of its own, the
  Open-Meteo reasons first. The webcam rating enters the overall rating and gives no
  reason.
\<close>

theorem message_composition:
  assumes "compute_openmeteo_rating repr exc_str marine weather = (open_rating, open_reasons)"
    and "compute_metservice_rating forecast = Inr (met_rating, map JStr met_reasons)"
    and "compute_image_rating decode image_data = cam_rating"
  shows "daily_task repr exc_str decode marine weather forecast image_data =
    Inr (''Spearfishing update'',
         ''Open-Meteo rating: '' @ str_int open_rating @ [CHR 0x0A] @
         ''MetService rating: '' @ str_int met_rating @ [CHR 0x0A] @
         ''CawthronEye rating: '' @ str_int cam_rating @ [CHR 0x0A] @
         ''Overall rating: '' @ str_int (overall_rating [open_rating, met_rating, cam_rating]) @
         (if open_reasons @ met_reasons = [] then []
          else [CHR 0x0A] @ ''Reasons:'' @
               concat (map (\<lambda>reason. CHR 0x0A # reason) (open_reasons @ met_reasons))))"
  using assms by (rule daily_task_text)

text \<open>
  The run with wave height 1.5, wind speed 5.0, precipitation probability 20, forecast
  word "fine" and a webcam image of mean intensity 200.
\<close>

lemma example_marine_weather:
  "compute_openmeteo_rating (\<lambda>f. ''1.5'') exc_str (marine_of (PFloat (Fin (3 / 2))))
     (weather_of (PFloat (Fin 5)) (PInt 20)) = (60, [''Swell 1.5 m''])"
proof -
  have "wave_height (marine_of (PFloat (Fin (3 / 2)))) = Some (PFloat (Fin (3 / 2)))"
    by (simp add: wave_height_def first_number_def marine_of_def)
  moreover have "wind_speed (weather_of (PFloat (Fin 5)) (PInt 20)) = Some (PFloat (Fin 5))"
    by (simp add: wind_speed_def first_number_def weather_of_def)
  moreover have "precip (weather_of (PFloat (Fin 5)) (PInt 20)) = Some (PInt 20)"
    by (simp add: precip_def first_number_def weather_of_def)
  ultimately show ?thesis
    by (simp add: openmeteo_well_formed float_7_7_def)
qed

lemma example_forecast:
  "compute_metservice_rating
     (forecast_of [(''forecastWord'', JStr ''fine''), (''forecast'', JStr ''Fine spells'')]) =
   Inr (90, map JStr [''Fine spells''])"
proof -
  have "day_fields (forecast_of [(''forecastWord'', JStr ''fine''), (''forecast'', JStr ''Fine spells'')])
    = Some [(''forecastWord'', JStr ''fine''), (''forecast'', JStr ''Fine spells'')]"
    by (simp add: day_fields_def forecast_of_def)
  moreover have "map lower_char ''fine'' = ''fine''" by code_simp
  ultimately show ?thesis
    by (simp add: metservice_well_formed keyword_rating_def)
qed

lemma example_image: "compute_image_rating (\<lambda>bs. Some [200]) (Some [1]) = 90"
  by (simp add: compute_image_rating_def mean_intensity_def)

lemma example_numbers:
  "str_int 60 = ''60''" "str_int 90 = ''90''" "str_int 80 = ''80''" "overall_rating [60, 90, 90] = 80"
  by code_simp+

text \<open>The theorem at that run, with the body written out.\<close>

theorem message_composition_witness:
  "compute_openmeteo_rating (\<lambda>f. ''1.5'') (\<lambda>e. []) (marine_of (PFloat (Fin (3 / 2))))
     (weather_of (PFloat (Fin 5)) (PInt 20)) = (60, [''Swell 1.5 m'']) \<and>
   compute_metservice_rating
     (forecast_of [(''forecastWord'', JStr ''fine''), (''forecast'', JStr ''Fine spells'')]) =
     Inr (90, map JStr [''Fine spells'']) \<and>
   compute_image_rating (\<lambda>bs. Some [200]) (Some [1]) = 90 \<and>
   daily_task (\<lambda>f. ''1.5'') (\<lambda>e. []) (\<lambda>bs. Some [200])
     (marine_of (PFloat (Fin (3 / 2)))) (weather_of (PFloat (Fin 5)) (PInt 20))
     (forecast_of [(''forecastWord'', JStr ''fine''), (''forecast'', JStr ''Fine spells'')])
     (Some [1]) =
   Inr (''Spearfishing update'',
        ''Open-Meteo rating: 60\<newline>MetService rating: 90\<newline>CawthronEye rating: 90\<newline>Overall rating: 80\<newline>Reasons:\<newline>Swell 1.5 m\<newline>Fine spells'')"
  using message_composition [OF example_marine_weather example_forecast example_image, of "\<lambda>e. []"]
    example_marine_weather [of "\<lambda>e. []"] example_forecast example_image
  by (simp add: example_numbers)

text \<open>
  Claim C10. When the first day of the forecast payload has a non-empty forecast word
  and no \<^verbatim>\<open>"forecast"\<close> field, the function returns exactly one reason, the empty
  str, and the body of the message is the four rating lines, the line "Reasons:", the
  Open-Meteo reasons each on a line, and a last newline character followed by nothing:
  an empty line that closes the "Reasons:" block.
\<close>

theorem blank_reason_line:
  assumes "day_fields forecast = Some day"
    and "map_of day ''forecastWord'' = Some (JStr word)" and "word \<noteq> []"
    and "map_of day ''forecast'' = None"
    and "compute_openmeteo_rating repr exc_str marine weather = (open_rating, open_reasons)"
    and "compute_image_rating decode image_data = cam_rating"
  shows "\<exists>met_rating.
    compute_metservice_rating forecast = Inr (met_rating, [JStr []]) \<and>
    daily_task repr exc_str decode marine weather forecast image_data =
      Inr (''Spearfishing update'',
           ''Open-Meteo rating: '' @ str_int open_rating @ [CHR 0x0A] @
           ''MetService rating: '' @ str_int met_rating @ [CHR 0x0A] @
           ''CawthronEye rating: '' @ str_int cam_rating @ [CHR 0x0A] @
           ''Overall rating: '' @ str_int (overall_rating [open_rating, met_rating, cam_rating]) @
           [CHR 0x0A] @ ''Reasons:'' @
           concat (map (\<lambda>reason. CHR 0x0A # reason) open_reasons) @
           [CHR 0x0A])"
proof -
  have m: "compute_metservice_rating forecast =
      Inr (keyword_rating (map lower_char word), map JStr [[]])"
    using metservice_well_formed [OF assms(1,2)] assms(3,4) by simp
  from daily_task_text [OF assms(5) m assms(6)] m show ?thesis by simp
qed

lemma example_calm:
  "compute_openmeteo_rating repr exc_str (marine_of (PInt 1)) (weather_of (PInt 5) (PInt 20)) =
     (100, [])"
proof -
  have "wave_height (marine_of (PInt 1)) = Some (PInt 1)"
    by (simp add: wave_height_def first_number_def marine_of_def)
  moreover have "wind_speed (weather_of (PInt 5) (PInt 20)) = Some (PInt 5)"
    by (simp add: wind_speed_def first_number_def weather_of_def)
  moreover have "precip (weather_of (PInt 5) (PInt 20)) = Some (PInt 20)"
    by (simp add: precip_def first_number_def weather_of_def)
  ultimately show ?thesis
    by (simp add: openmeteo_well_formed float_7_7_def)
qed

lemma example_numbers_blank:
  "str_int 100 = ''100''" "str_int 60 = ''60''" "str_int 0 = ''0''" "str_int 53 = ''53''"
  "overall_rating [100, 60, 0] = 53" "keyword_rating (map lower_char ''Cloudy'') = 60"
  by code_simp+

lemma example_cloudy:
  "day_fields (forecast_of [(''forecastWord'', JStr ''Cloudy'')]) =
     Some [(''forecastWord'', JStr ''Cloudy'')]"
  "compute_metservice_rating (forecast_of [(''forecastWord'', JStr ''Cloudy'')]) =
     Inr (60, [JStr []])"
proof -
  show a: "day_fields (forecast_of [(''forecastWord'', JStr ''Cloudy'')]) =
     Some [(''forecastWord'', JStr ''Cloudy'')]"
    by (simp add: day_fields_def forecast_of_def)
  have b: "map_of [(''forecastWord'', JStr ''Cloudy'')] ''forecastWord'' = Some (JStr ''Cloudy'')"
    by simp
  from metservice_well_formed [OF a b, unfolded example_numbers_blank]
  show "compute_metservice_rating (forecast_of [(''forecastWord'', JStr ''Cloudy'')]) =
     Inr (60, [JStr []])"
    by simp
qed

text \<open>
  The theorem at the forecast word "Cloudy", calm sea and no webcam image, with the body
  written out: it ends with "Reasons:" and a newline.
\<close>

theorem blank_reason_line_witness:
  "day_fields (forecast_of [(''forecastWord'', JStr ''Cloudy'')]) =
     Some [(''forecastWord'', JStr ''Cloudy'')] \<and>
   map_of [(''forecastWord'', JStr ''Cloudy'')] ''forecastWord'' = Some (JStr ''Cloudy'') \<and>
   ''Cloudy'' \<noteq> [] \<and>
   map_of [(''forecastWord'', JStr ''Cloudy'')] ''forecast'' = None \<and>
   compute_metservice_rating (forecast_of [(''forecastWord'', JStr ''Cloudy'')]) =
     Inr (60, [JStr []]) \<and>
   daily_task (\<lambda>f. []) (\<lambda>e. []) (\<lambda>bs. None)
     (marine_of (PInt 1)) (weather_of (PInt 5) (PInt 20))
     (forecast_of [(''forecastWord'', JStr ''Cloudy'')]) None =
   Inr (''Spearfishing update'',
        ''Open-Meteo rating: 100\<newline>MetService rating: 60\<newline>CawthronEye rating: 0\<newline>Overall rating: 53\<newline>Reasons:\<newline>'')"
proof -
  note a = example_cloudy(1) and f = example_cloudy(2)
  have b: "map_of [(''forecastWord'', JStr ''Cloudy'')] ''forecastWord'' = Some (JStr ''Cloudy'')"
    and c: "''Cloudy'' \<noteq> []"
    and d: "map_of [(''forecastWord'', JStr ''Cloudy'')] ''forecast'' = None"
    by simp_all
  have e: "compute_image_rating (\<lambda>bs. None) None = 0"
    by (simp add: compute_image_rating_def)
  from blank_reason_line [OF a b c d example_calm e, of "\<lambda>f. []" "\<lambda>e. []"] a b d f
  show ?thesis by (simp add: example_numbers_blank)
qed

section \<open>The three rating functions together\<close>

text \<open>
  Claim C7 asks that each rating function returns a rating between 0 and 100 for every
  input. \<^verbatim>\<open>compute_openmeteo_rating\<close> and \<^verbatim>\<open>compute_image_rating\<close> do;
  every rating that \<^verbatim>\<open>compute_metservice_rating\<close> returns is in that range, but on the
  payload \<^verbatim>\<open>{"days": []}\<close> it raises and returns no rating.
\<close>

theorem rating_ranges:
  "0 \<le> fst (compute_openmeteo_rating repr exc_str marine weather)
   \<and> fst (compute_openmeteo_rating repr exc_str marine weather) \<le> 100
   \<and> 0 \<le> compute_image_rating decode data
   \<and> compute_image_rating decode data \<le> 100
   \<and> (\<forall>rating reasons. compute_metservice_rating forecast = Inr (rating, reasons) \<longrightarrow>
         0 \<le> rating \<and> rating \<le> 100)
   \<and> \<not> (\<exists>rating reasons.
         compute_metservice_rating (JDict [(''days'', JList [])]) = Inr (rating, reasons))"
proof -
  have a: "compute_metservice_rating (JDict [(''days'', JList [])]) = Inl IndexError"
    by (simp add: compute_metservice_rating_def and_then_def first_day_def)
  have b: "0 \<le> compute_image_rating decode data \<and> compute_image_rating decode data \<le> 100"
    using image_rating_values [of decode data] by auto
  have c: "0 \<le> rating \<and> rating \<le> 100"
    if "compute_metservice_rating forecast = Inr (rating, reasons)" for rating reasons
    using metservice_rating_range [OF that] by auto
  from a b c openmeteo_rating_range [of repr exc_str marine weather] show ?thesis by simp
qed

text \<open>The theorem at the forecast word "Cloudy", rated 60.\<close>

theorem rating_ranges_witness:
  "compute_metservice_rating (forecast_of [(''forecastWord'', JStr ''Cloudy'')]) =
     Inr (60, [JStr []]) \<and> (0 :: int) \<le> 60 \<and> (60 :: int) \<le> 100"
  using rating_ranges [of _ _ _ _ _ _ "forecast_of [(''forecastWord'', JStr ''Cloudy'')]"]
    example_cloudy(2)
  by simp

end
